theory Spec2Isabelle
  imports Main
begin

section \<open>Amounts: the C++ type double\<close>

text \<open>
  Every price and total of \<^verbatim>\<open>Pizza.cpp\<close> is a \<^verbatim>\<open>double\<close>. The only
  literals are the integers 0, 8, 10, 12, 40 and 50 and the only operation is \<^verbatim>\<open>+=\<close>,
  so every value the program computes is an integer-valued double. Such a value is
  modelled by the integer it denotes, and \<^verbatim>\<open>+\<close> by the exact sum rounded to the
  nearest double, ties to the even significand (IEEE 754 binary64, the default rounding
  mode). A binary64 significand has 53 bits: below \<open>2 ^ 53\<close> neighbouring doubles are at
  most 1 apart, and the distance doubles with every further power of two (\<open>ulp\<close>).
  Overflow to infinity (magnitudes from \<open>2 ^ 1024\<close>) is not modelled: a sum of this
  program stops growing long before, since adding 50 to a double from \<open>2 ^ 59\<close> on
  returns it unchanged.
\<close>

type_synonym double = int

function ulp :: "nat \<Rightarrow> nat" where
  "ulp n = (if n < 2 ^ 53 then 1 else 2 * ulp (n div 2))"
  by pat_completeness auto
termination
  by (relation "measure id") simp_all

declare ulp.simps [simp del]

definition round_nat :: "nat \<Rightarrow> nat" where
  "round_nat n =
     (let u = ulp n; q = n div u; r = n mod u
      in if 2 * r < u then q * u
         else if u < 2 * r then (q + 1) * u
         else if even q then q * u
         else (q + 1) * u)"

definition round_double :: "int \<Rightarrow> double" where
  "round_double x = sgn x * int (round_nat (nat \<bar>x\<bar>))"

definition dadd :: "double \<Rightarrow> double \<Rightarrow> double" where
  "dadd x y = round_double (x + y)"

section \<open>Pizzas and the builder\<close>

text \<open>
  The abstract class \<^verbatim>\<open>Pizza\<close> with its three subclasses is a datatype; the two
  virtual getters dispatch on the constructor.
\<close>

datatype Pizza = CustomPizza string double | PepperoniPizza | HawaiianPizza

fun getName :: "Pizza \<Rightarrow> string" where
  "getName (CustomPizza n p) = n"
| "getName PepperoniPizza = ''Pizza Pepperoni''"
| "getName HawaiianPizza = ''Pizza Hawaiana''"

fun getPrice :: "Pizza \<Rightarrow> double" where
  "getPrice (CustomPizza n p) = p"
| "getPrice PepperoniPizza = 40"
| "getPrice HawaiianPizza = 50"

record PizzaBuilder =
  name :: string
  price :: double

definition new_PizzaBuilder :: PizzaBuilder where
  "new_PizzaBuilder = \<lparr>name = ''Pizza Personalizada'', price = 0\<rparr>"

definition addCheese :: "PizzaBuilder \<Rightarrow> PizzaBuilder" where
  "addCheese b = b\<lparr>price := dadd (price b) 10\<rparr>"

definition addPepperoni :: "PizzaBuilder \<Rightarrow> PizzaBuilder" where
  "addPepperoni b = b\<lparr>price := dadd (price b) 12\<rparr>"

definition addPineapple :: "PizzaBuilder \<Rightarrow> PizzaBuilder" where
  "addPineapple b = b\<lparr>price := dadd (price b) 8\<rparr>"

definition build :: "PizzaBuilder \<Rightarrow> Pizza" where
  "build b = CustomPizza (name b) (price b)"

text \<open>A sequence of add calls on one builder, named by the ingredient of each call.\<close>

datatype ingredient = Cheese | Pepperoni | Pineapple

fun add_ingredient :: "ingredient \<Rightarrow> PizzaBuilder \<Rightarrow> PizzaBuilder" where
  "add_ingredient Cheese b = addCheese b"
| "add_ingredient Pepperoni b = addPepperoni b"
| "add_ingredient Pineapple b = addPineapple b"

definition add_all :: "ingredient list \<Rightarrow> PizzaBuilder \<Rightarrow> PizzaBuilder" where
  "add_all xs b = fold add_ingredient xs b"

section \<open>Output, observers and payments\<close>

text \<open>
  What is written to \<^verbatim>\<open>std::cout\<close> is a sequence of items, one for each
  \<^verbatim>\<open>operator<<\<close>: a string, or a double (whose rendering is the stream's business).
  \<^verbatim>\<open>endl\<close> is the newline. The effect of a method is the list of events it causes:
  the items it writes and, for the three methods the observer and adapter patterns are
  about, a record of the call itself, made on entry.
\<close>

datatype out_item = Str string | Dbl double

datatype Observer = EmailNotifier | AuditLogger

datatype ExternalPaymentAPI = ExternalPaymentAPI

datatype Payment = CashPayment | CardPayment | ExternalPaymentAdapter ExternalPaymentAPI

datatype call =
    Update Observer double
  | Pay Payment double
  | DoTransaction ExternalPaymentAPI double

datatype event = Call call | Cout out_item

definition cout :: "out_item list \<Rightarrow> event list" where
  "cout xs = map Cout xs"

fun calls_of :: "event list \<Rightarrow> call list" where
  "calls_of [] = []"
| "calls_of (Call c # evs) = c # calls_of evs"
| "calls_of (Cout x # evs) = calls_of evs"

fun stdout_of :: "event list \<Rightarrow> out_item list" where
  "stdout_of [] = []"
| "stdout_of (Call c # evs) = stdout_of evs"
| "stdout_of (Cout x # evs) = x # stdout_of evs"

text \<open>The accented letters of the messages, as the UTF-8 bytes of the source file.\<close>

definition a_acute :: string where
  "a_acute = [CHR 0xC3, CHR 0xA1]"

definition e_acute :: string where
  "e_acute = [CHR 0xC3, CHR 0xA9]"

definition o_acute :: string where
  "o_acute = [CHR 0xC3, CHR 0xB3]"

definition n_tilde :: string where
  "n_tilde = [CHR 0xC3, CHR 0xB1]"

fun update :: "Observer \<Rightarrow> double \<Rightarrow> event list" where
  "update EmailNotifier total' =
     Call (Update EmailNotifier total') #
     cout [Str (''[Email] Enviando confirmaci'' @ o_acute @ ''n de pedido por Bs''), Dbl total',
           Str ''...\<newline>'']"
| "update AuditLogger total' =
     Call (Update AuditLogger total') #
     cout [Str ''[Log] Pedido registrado por Bs'', Dbl total', Str ''.\<newline>'']"

fun doTransaction :: "ExternalPaymentAPI \<Rightarrow> double \<Rightarrow> event list" where
  "doTransaction api amount =
     Call (DoTransaction api amount) #
     cout [Str ''Pago realizado mediante API externa: Bs'', Dbl amount, Str ''\<newline>'']"

fun pay :: "Payment \<Rightarrow> double \<Rightarrow> event list" where
  "pay CashPayment amount =
     Call (Pay CashPayment amount) #
     cout [Str ''Pagando Bs'', Dbl amount, Str '' en efectivo.\<newline>'']"
| "pay CardPayment amount =
     Call (Pay CardPayment amount) #
     cout [Str ''Pagando Bs'', Dbl amount, Str '' con tarjeta.\<newline>'']"
| "pay (ExternalPaymentAdapter api) amount =
     Call (Pay (ExternalPaymentAdapter api) amount) # doTransaction api amount"

section \<open>The order\<close>

text \<open>
  The two vectors of \<^verbatim>\<open>Order\<close> are lists; \<^verbatim>\<open>push_back\<close> appends. Every
  pizza is allocated at its \<^verbatim>\<open>addPizza\<close> call and owned by the order, so the vector
  of pointers is a list of values, and \<^verbatim>\<open>delete\<close> has no effect on the modelled
  state. A method that is not \<^verbatim>\<open>const\<close> returns the order it leaves behind.
\<close>

record Order =
  pizzas :: "Pizza list"
  observers :: "Observer list"

definition new_Order :: Order where
  "new_Order = \<lparr>pizzas = [], observers = []\<rparr>"

definition addPizza :: "Pizza \<Rightarrow> Order \<Rightarrow> Order" where
  "addPizza pizza ord = ord\<lparr>pizzas := pizzas ord @ [pizza]\<rparr>"

definition addObserver :: "Observer \<Rightarrow> Order \<Rightarrow> Order" where
  "addObserver obs ord = ord\<lparr>observers := observers ord @ [obs]\<rparr>"

fun notify_loop :: "Observer list \<Rightarrow> double \<Rightarrow> event list" where
  "notify_loop [] total' = []"
| "notify_loop (obs # rest) total' = update obs total' @ notify_loop rest total'"

definition notifyObservers :: "double \<Rightarrow> Order \<Rightarrow> Order \<times> event list" where
  "notifyObservers total' ord = (ord, notify_loop (observers ord) total')"

fun list_loop :: "Pizza list \<Rightarrow> out_item list" where
  "list_loop [] = []"
| "list_loop (pizza # rest) =
     [Str ''- '', Str (getName pizza), Str '' (Bs'', Dbl (getPrice pizza), Str '')\<newline>'']
     @ list_loop rest"

definition listOrder :: "Order \<Rightarrow> out_item list" where
  "listOrder ord = Str ''Pizzas en el pedido:\<newline>'' # list_loop (pizzas ord)"

fun total_loop :: "double \<Rightarrow> Pizza list \<Rightarrow> double" where
  "total_loop total' [] = total'"
| "total_loop total' (pizza # rest) = total_loop (dadd total' (getPrice pizza)) rest"

definition calculateTotal :: "Order \<Rightarrow> double" where
  "calculateTotal ord = total_loop 0 (pizzas ord)"

definition checkout :: "Payment \<Rightarrow> Order \<Rightarrow> Order \<times> event list" where
  "checkout paymentMethod ord =
     (let total' = calculateTotal ord;
          (ord', notified) = notifyObservers total' ord
      in (ord', notified
                @ cout [Str ''Total a pagar: Bs'', Dbl total', Str ''\<newline>'']
                @ pay paymentMethod total'))"

definition clearOrder :: "Order \<Rightarrow> Order" where
  "clearOrder ord = ord\<lparr>pizzas := []\<rparr>"

text \<open>The operations the program performs on its order, and a run of them from the
  empty order.\<close>

datatype operation =
    AddObserver Observer
  | AddPepperoni
  | AddHawaiian
  | AddCustom "ingredient list"
  | ClearOrder
  | Checkout Payment

fun perform :: "operation \<Rightarrow> Order \<Rightarrow> Order" where
  "perform (AddObserver obs) ord = addObserver obs ord"
| "perform AddPepperoni ord = addPizza PepperoniPizza ord"
| "perform AddHawaiian ord = addPizza HawaiianPizza ord"
| "perform (AddCustom xs) ord = addPizza (build (add_all xs new_PizzaBuilder)) ord"
| "perform ClearOrder ord = clearOrder ord"
| "perform (Checkout paymentMethod) ord = fst (checkout paymentMethod ord)"

definition run :: "operation list \<Rightarrow> Order" where
  "run ops = fold perform ops new_Order"

section \<open>Console input\<close>

text \<open>
  \<^verbatim>\<open>std::cin\<close> is modelled by what \<^verbatim>\<open>cin >> x\<close> finds for an \<^verbatim>\<open>int x\<close>:
  the fields still to be read, each either a decimal integer or something that is not
  one, and the stream's fail bit. The extraction follows the C++ standard library (from
  C++11): on a stream that has failed or is at its end nothing is stored, and the stream
  has failed from then on; a field that is no number stores 0 and fails, leaving the field
  in the stream; a number beyond the range of a 32-bit \<^verbatim>\<open>int\<close> stores the nearest
  bound and fails. The program never clears the fail bit. The variable is passed as
  \<open>None\<close> as long as nothing was stored in it.
\<close>

datatype token = Number int | Malformed

record istream =
  pending :: "token list"
  failbit :: bool

definition INT_MAX :: int where
  "INT_MAX = 2147483647"

definition INT_MIN :: int where
  "INT_MIN = - 2147483648"

fun extract_int :: "istream \<Rightarrow> int option \<Rightarrow> int option \<times> istream" where
  "extract_int stream var =
     (if failbit stream then (var, stream)
      else case pending stream of
        [] \<Rightarrow> (var, stream\<lparr>failbit := True\<rparr>)
      | Malformed # rest \<Rightarrow> (Some 0, stream\<lparr>failbit := True\<rparr>)
      | Number n # rest \<Rightarrow>
          if n < INT_MIN then (Some INT_MIN, \<lparr>pending = rest, failbit = True\<rparr>)
          else if INT_MAX < n then (Some INT_MAX, \<lparr>pending = rest, failbit = True\<rparr>)
          else (Some n, \<lparr>pending = rest, failbit = False\<rparr>))"

section \<open>The program\<close>

text \<open>
  The state of \<^verbatim>\<open>main\<close>: its order, the input still to come and everything that
  has happened so far. A run that switches on an \<^verbatim>\<open>int\<close> in which nothing was ever
  stored has undefined behaviour and ends in a fault. Both loops of \<^verbatim>\<open>main\<close> can run
  forever; such a run has the value \<open>None\<close>.
\<close>

record state =
  order :: Order
  cin :: istream
  trace :: "event list"

datatype fault = IndeterminateValue

definition print :: "out_item list \<Rightarrow> state \<Rightarrow> state" where
  "print xs s = s\<lparr>trace := trace s @ cout xs\<rparr>"

definition read_int :: "int option \<Rightarrow> state \<Rightarrow> int option \<times> state" where
  "read_int var s = (case extract_int (cin s) var of (var', stream) \<Rightarrow> (var', s\<lparr>cin := stream\<rparr>))"

definition invalid_option :: string where
  "invalid_option = ''Opci'' @ o_acute @ ''n no v'' @ a_acute @ ''lida.\<newline>''"

definition invalid_method :: string where
  "invalid_method =
     ''M'' @ e_acute @ ''todo inv'' @ a_acute @ ''lido. Se usar'' @ a_acute
     @ '' efectivo por defecto.\<newline>''"

definition menu_text :: "out_item list" where
  "menu_text =
     [Str ''\<newline>=== Menu de Pizzas ===\<newline>'',
      Str ''1. Pizza Pepperoni (Bs 40)\<newline>'',
      Str ''2. Pizza Hawaiana (Bs 50)\<newline>'',
      Str ''3. Pizza Personalizada\<newline>'',
      Str ''4. Finalizar pedido\<newline>'',
      Str ''Seleccione una opcion: '']"

definition ingredient_menu_text :: "out_item list" where
  "ingredient_menu_text =
     [Str ''Elija ingredientes para su pizza personalizada:\<newline>'',
      Str ''1. Queso (+Bs10)\<newline>'',
      Str ''2. Pepperoni (+Bs12)\<newline>'',
      Str (''3. Pi'' @ n_tilde @ ''a (+Bs8)\<newline>''),
      Str ''0. Terminar\<newline>'']"

definition payment_menu_text :: "out_item list" where
  "payment_menu_text =
     [Str ''\<newline>Seleccione metodo de pago:\<newline>'',
      Str ''1. Efectivo\<newline>'',
      Str ''2. Tarjeta\<newline>'',
      Str ''3. API Externa (Adapter)\<newline>'']"

text \<open>The inner switch and the ingredient loop around it (lines 222 to 232).\<close>

definition ingredient_switch :: "int \<Rightarrow> PizzaBuilder \<Rightarrow> state \<Rightarrow> PizzaBuilder \<times> state" where
  "ingredient_switch ingrediente builder s =
     (if ingrediente = 1 then (addCheese builder, s)
      else if ingrediente = 2 then (addPepperoni builder, s)
      else if ingrediente = 3 then (addPineapple builder, s)
      else if ingrediente = 0 then (builder, s)
      else (builder, print [Str invalid_option] s))"

partial_function (option) ingredient_loop ::
  "int option \<Rightarrow> PizzaBuilder \<Rightarrow> state \<Rightarrow> (fault + PizzaBuilder \<times> state) option" where
  "ingredient_loop ingrediente builder s =
     (case read_int ingrediente (print [Str ''Ingrediente: ''] s) of
        (None, s1) \<Rightarrow> Some (Inl IndeterminateValue)
      | (Some i, s1) \<Rightarrow>
          (case ingredient_switch i builder s1 of
             (builder', s2) \<Rightarrow>
               if i \<noteq> 0 then ingredient_loop (Some i) builder' s2
               else Some (Inr (builder', s2))))"

text \<open>
  The outer switch (lines 205 to 242); one turn of the menu loop once the menu is on the
  screen, which is the extraction and the switch (lines 203 to 242); the body of the
  loop, which writes the menu first (lines 197 to 242); and the loop with its condition
  (lines 196 to 244). A turn returns the value now in \<^verbatim>\<open>option\<close> and the state.
\<close>

definition menu_switch :: "int \<Rightarrow> state \<Rightarrow> (fault + state) option" where
  "menu_switch option' s =
     (if option' = 1 then Some (Inr (s\<lparr>order := addPizza PepperoniPizza (order s)\<rparr>))
      else if option' = 2 then Some (Inr (s\<lparr>order := addPizza HawaiianPizza (order s)\<rparr>))
      else if option' = 3 then
        (case ingredient_loop None new_PizzaBuilder (print ingredient_menu_text s) of
           None \<Rightarrow> None
         | Some (Inl f) \<Rightarrow> Some (Inl f)
         | Some (Inr (builder, s1)) \<Rightarrow>
             Some (Inr (s1\<lparr>order := addPizza (build builder) (order s1)\<rparr>)))
      else if option' = 4 then Some (Inr (print [Str ''Finalizando pedido...\<newline>''] s))
      else Some (Inr (print [Str invalid_option] s)))"

definition menu_turn :: "int option \<Rightarrow> state \<Rightarrow> (fault + int \<times> state) option" where
  "menu_turn option' s =
     (case read_int option' s of
        (None, s1) \<Rightarrow> Some (Inl IndeterminateValue)
      | (Some n, s1) \<Rightarrow>
          (case menu_switch n s1 of
             None \<Rightarrow> None
           | Some (Inl f) \<Rightarrow> Some (Inl f)
           | Some (Inr s2) \<Rightarrow> Some (Inr (n, s2))))"

definition menu_body :: "int option \<Rightarrow> state \<Rightarrow> (fault + int \<times> state) option" where
  "menu_body option' s = menu_turn option' (print menu_text s)"

partial_function (option) menu_loop :: "int option \<Rightarrow> state \<Rightarrow> (fault + state) option" where
  "menu_loop option' s =
     (case menu_body option' s of
        None \<Rightarrow> None
      | Some (Inl f) \<Rightarrow> Some (Inl f)
      | Some (Inr (n, s2)) \<Rightarrow> if n \<noteq> 4 then menu_loop (Some n) s2 else Some (Inr s2))"

text \<open>The choice of the payment (lines 255 to 265) and the rest of \<^verbatim>\<open>main\<close>.\<close>

definition select_payment :: "int \<Rightarrow> state \<Rightarrow> Payment \<times> state" where
  "select_payment paymentOption s =
     (if paymentOption = 1 then (CashPayment, s)
      else if paymentOption = 2 then (CardPayment, s)
      else if paymentOption = 3 then (ExternalPaymentAdapter ExternalPaymentAPI, s)
      else (CashPayment, print [Str invalid_method] s))"

definition payment_phase :: "state \<Rightarrow> fault + state" where
  "payment_phase s =
     (case read_int None s of
        (None, s1) \<Rightarrow> Inl IndeterminateValue
      | (Some paymentOption, s1) \<Rightarrow>
          (case select_payment paymentOption s1 of
             (payment, s2) \<Rightarrow>
               (case checkout payment (order s2) of
                  (ord', evs) \<Rightarrow> Inr (s2\<lparr>order := clearOrder ord', trace := trace s2 @ evs\<rparr>))))"

definition finish :: "state \<Rightarrow> fault + state" where
  "finish s = payment_phase (print payment_menu_text (print (listOrder (order s)) s))"

definition initial_state :: "token list \<Rightarrow> state" where
  "initial_state input =
     \<lparr>order = addObserver AuditLogger (addObserver EmailNotifier new_Order),
      cin = \<lparr>pending = input, failbit = False\<rparr>,
      trace = []\<rparr>"

definition main :: "token list \<Rightarrow> (fault + state) option" where
  "main input =
     (case menu_loop None (initial_state input) of
        None \<Rightarrow> None
      | Some (Inl f) \<Rightarrow> Some (Inl f)
      | Some (Inr s) \<Rightarrow> Some (finish s))"

section \<open>Showing a count\<close>

text \<open>
  What it means for a piece of output to show the number \<open>n\<close>: one of its items is the
  double \<open>n\<close>, or a string in which the decimal digits of \<open>n\<close> occur. This is the
  reading of "prints the item count" that the listing is tested against below.
\<close>

function decimal :: "nat \<Rightarrow> string" where
  "decimal n =
     (if n < 10 then [''0123456789'' ! n]
      else decimal (n div 10) @ [''0123456789'' ! (n mod 10)])"
  by pat_completeness auto
termination
  by (relation "measure id") simp_all

declare decimal.simps [simp del]

fun occurs_in :: "string \<Rightarrow> string \<Rightarrow> bool" where
  "occurs_in pat [] = (pat = [])"
| "occurs_in pat (c # cs) = (take (length pat) (c # cs) = pat \<or> occurs_in pat cs)"

fun shows_number :: "nat \<Rightarrow> out_item \<Rightarrow> bool" where
  "shows_number n (Str s) = occurs_in (decimal n) s"
| "shows_number n (Dbl d) = (d = int n)"

definition prints_count :: "out_item list \<Rightarrow> nat \<Rightarrow> bool" where
  "prints_count out n = list_ex (shows_number n) out"

section \<open>Double addition on integers\<close>

lemma ulp_pos: "0 < ulp n"
  by (induction n rule: ulp.induct) (subst ulp.simps, simp)

text \<open>A multiple of \<open>2 ^ k\<close> up to \<open>2 ^ (53 + k)\<close> is a double.\<close>

lemma ulp_dvd: "2 ^ k dvd n \<Longrightarrow> n \<le> 2 ^ (53 + k) \<Longrightarrow> ulp n dvd n"
proof (induction k arbitrary: n)
  case 0
  show ?case
  proof (cases "n < 2 ^ 53")
    case True
    then show ?thesis by (subst ulp.simps) simp
  next
    case False
    with 0 have "n = 2 ^ 53" by simp
    then show ?thesis by (simp add: ulp.simps)
  qed
next
  case (Suc k)
  show ?case
  proof (cases "n < 2 ^ 53")
    case True
    then show ?thesis by (subst ulp.simps) simp
  next
    case False
    from Suc.prems(1) obtain m where m: "n = 2 * (2 ^ k * m)"
      by (auto elim: dvdE)
    have e: "(2::nat) ^ (53 + Suc k) = 2 * 2 ^ (53 + k)"
      by (simp only: add_Suc_right power_Suc)
    have "n \<le> 2 * 2 ^ (53 + k)"
      using Suc.prems(2) by (simp only: e)
    then have "n div 2 \<le> 2 ^ (53 + k)"
      by linarith
    moreover have "2 ^ k dvd n div 2"
      using m by simp
    ultimately have "ulp (n div 2) dvd n div 2"
      by (intro Suc.IH)
    then have "2 * ulp (n div 2) dvd n"
      using m by simp
    with False show ?thesis by (subst ulp.simps) simp
  qed
qed

lemma round_nat_exact: "ulp n dvd n \<Longrightarrow> round_nat n = n"
  using ulp_pos [of n] by (auto simp: round_nat_def Let_def)

lemma round_double_exact:
  assumes "2 ^ k dvd x" and "\<bar>x\<bar> \<le> 2 ^ (53 + k)"
  shows "round_double x = x"
proof -
  have "2 ^ k dvd nat \<bar>x\<bar>"
    using assms(1)
    by (metis dvd_abs_iff int_dvd_int_iff nat_0_le abs_ge_zero of_nat_numeral of_nat_power)
  moreover have "nat \<bar>x\<bar> \<le> 2 ^ (53 + k)"
    using assms(2) by (simp add: nat_le_iff)
  ultimately have "round_nat (nat \<bar>x\<bar>) = nat \<bar>x\<bar>"
    by (intro round_nat_exact ulp_dvd)
  then show ?thesis
    by (simp add: round_double_def mult_sgn_abs)
qed

lemma round_double_nonneg: "0 \<le> x \<Longrightarrow> 0 \<le> round_double x"
  by (simp add: round_double_def sgn_if)

lemma dadd_exact: "\<bar>x + y\<bar> \<le> 2 ^ 53 \<Longrightarrow> dadd x y = x + y"
  using round_double_exact [of 0 "x + y"] by (simp add: dadd_def)

lemma dadd_nonneg: "0 \<le> x \<Longrightarrow> 0 \<le> y \<Longrightarrow> 0 \<le> dadd x y"
  by (simp add: dadd_def round_double_nonneg)

text \<open>Above \<open>2 ^ 55\<close> doubles are 8 apart: adding 10 gives the double 8 further on.\<close>

lemma dadd_2_55_10: "dadd (2 ^ 55) 10 = 2 ^ 55 + 8"
  by (simp add: dadd_def round_double_def round_nat_def ulp.simps)

section \<open>The total of an order\<close>

lemma total_loop_exact:
  "\<bar>t\<bar> + sum_list (map (\<lambda>p. \<bar>getPrice p\<bar>) ps) \<le> 2 ^ 53
     \<Longrightarrow> total_loop t ps = t + sum_list (map getPrice ps)"
proof (induction ps arbitrary: t)
  case Nil
  then show ?case by simp
next
  case (Cons p ps)
  have rest: "0 \<le> sum_list (map (\<lambda>p. \<bar>getPrice p\<bar>) ps)"
    by (intro sum_list_nonneg) auto
  have "\<bar>t + getPrice p\<bar> \<le> 2 ^ 53"
    using Cons.prems rest by simp
  then have "dadd t (getPrice p) = t + getPrice p"
    by (rule dadd_exact)
  moreover have "total_loop (t + getPrice p) ps = t + getPrice p + sum_list (map getPrice ps)"
    using Cons.prems by (intro Cons.IH) simp
  ultimately show ?case by simp
qed

text \<open>
  C2, as amended. For every order whose prices sum, in absolute value, to at most
  \<open>2 ^ 53\<close>, \<open>calculateTotal\<close> is the exact sum of the prices of the pizzas now in the
  order; Pepperoni costs 40 and Hawaiian 50. The total is a function of the item sequence:
  the order stores no total.
\<close>

theorem calculateTotal_exact_sum:
  assumes "sum_list (map (\<lambda>p. \<bar>getPrice p\<bar>) (pizzas ord)) \<le> 2 ^ 53"
  shows "calculateTotal ord = sum_list (map getPrice (pizzas ord))
           \<and> getPrice PepperoniPizza = 40 \<and> getPrice HawaiianPizza = 50"
  using assms total_loop_exact [of 0 "pizzas ord"] by (simp add: calculateTotal_def)

text \<open>The order of the specification's scenario: 40 + 50 + 18 = 108.\<close>

theorem calculateTotal_exact_sum_witness:
  "calculateTotal \<lparr>pizzas = [PepperoniPizza, HawaiianPizza, CustomPizza ''Pizza Personalizada'' 18],
                    observers = [EmailNotifier, AuditLogger]\<rparr> = 108"
  using calculateTotal_exact_sum
    [of "\<lparr>pizzas = [PepperoniPizza, HawaiianPizza, CustomPizza ''Pizza Personalizada'' 18],
          observers = [EmailNotifier, AuditLogger]\<rparr>"]
  by simp

text \<open>
  C2 as stated fails where the sum is no double: a custom pizza of \<open>2 ^ 55\<close> and one of
  10 total \<open>2 ^ 55 + 8\<close>.
\<close>

theorem calculateTotal_exact_sum_counterexample:
  "calculateTotal \<lparr>pizzas = [CustomPizza ''Pizza Personalizada'' (2 ^ 55),
                              CustomPizza ''Pizza Personalizada'' 10],
                    observers = []\<rparr>
     \<noteq> sum_list (map getPrice [CustomPizza ''Pizza Personalizada'' (2 ^ 55),
                              CustomPizza ''Pizza Personalizada'' 10])"
  by (simp add: calculateTotal_def dadd_def round_double_def round_nat_def ulp.simps)

section \<open>The builder\<close>

lemma add_all_Nil: "add_all [] b = b"
  by (simp add: add_all_def)

lemma add_all_Cons: "add_all (x # xs) b = add_all xs (add_ingredient x b)"
  by (simp add: add_all_def)

lemma add_all_append: "add_all (xs @ ys) b = add_all ys (add_all xs b)"
  by (simp add: add_all_def)

lemma count_list_replicate: "count_list (replicate n x) y = (if x = y then n else 0)"
  by (induction n) auto

lemma price_add_all:
  "0 \<le> price b
     \<Longrightarrow> price b + (10 * int (count_list xs Cheese) + 12 * int (count_list xs Pepperoni)
                    + 8 * int (count_list xs Pineapple)) \<le> 2 ^ 53
     \<Longrightarrow> price (add_all xs b) =
           price b + (10 * int (count_list xs Cheese) + 12 * int (count_list xs Pepperoni)
                      + 8 * int (count_list xs Pineapple))"
proof (induction xs arbitrary: b)
  case Nil
  then show ?case by (simp add: add_all_Nil)
next
  case (Cons x xs)
  show ?case
  proof (cases x)
    case Cheese
    have "price b + 10 \<le> 2 ^ 53"
      using Cons.prems(2) Cheese by simp
    then have "dadd (price b) 10 = price b + 10"
      using Cons.prems(1) by (intro dadd_exact) simp
    then have step: "price (addCheese b) = price b + 10"
      by (simp add: addCheese_def)
    show ?thesis
      using Cons.prems Cons.IH [of "addCheese b"] step Cheese by (simp add: add_all_Cons)
  next
    case Pepperoni
    have "price b + 12 \<le> 2 ^ 53"
      using Cons.prems(2) Pepperoni by simp
    then have "dadd (price b) 12 = price b + 12"
      using Cons.prems(1) by (intro dadd_exact) simp
    then have step: "price (addPepperoni b) = price b + 12"
      by (simp add: addPepperoni_def)
    show ?thesis
      using Cons.prems Cons.IH [of "addPepperoni b"] step Pepperoni by (simp add: add_all_Cons)
  next
    case Pineapple
    have "price b + 8 \<le> 2 ^ 53"
      using Cons.prems(2) Pineapple by simp
    then have "dadd (price b) 8 = price b + 8"
      using Cons.prems(1) by (intro dadd_exact) simp
    then have step: "price (addPineapple b) = price b + 8"
      by (simp add: addPineapple_def)
    show ?thesis
      using Cons.prems Cons.IH [of "addPineapple b"] step Pineapple by (simp add: add_all_Cons)
  qed
qed

text \<open>
  C3, as amended. A fresh builder starts at price 0, and after any sequence of adds with
  \<open>c\<close> cheese, \<open>p\<close> pepperoni and \<open>a\<close> pineapple additions for which
  \<open>10 * c + 12 * p + 8 * a\<close> is at most \<open>2 ^ 53\<close>, \<open>build\<close> returns a pizza of exactly
  that price.
\<close>

theorem builder_price:
  assumes "10 * int (count_list xs Cheese) + 12 * int (count_list xs Pepperoni)
             + 8 * int (count_list xs Pineapple) \<le> 2 ^ 53"
  shows "price new_PizzaBuilder = 0
           \<and> getPrice (build (add_all xs new_PizzaBuilder)) =
               10 * int (count_list xs Cheese) + 12 * int (count_list xs Pepperoni)
               + 8 * int (count_list xs Pineapple)"
proof -
  have fresh: "price new_PizzaBuilder = 0"
    by (simp add: new_PizzaBuilder_def)
  with assms price_add_all [of new_PizzaBuilder xs] show ?thesis
    by (simp add: build_def)
qed

text \<open>One of each ingredient gives 30; cheese twice gives 20.\<close>

theorem builder_price_witness:
  "getPrice (build (add_all [Cheese, Pepperoni, Pineapple] new_PizzaBuilder)) = 30
     \<and> getPrice (build (add_all [Cheese, Cheese] new_PizzaBuilder)) = 20"
  using builder_price [of "[Cheese, Pepperoni, Pineapple]"] builder_price [of "[Cheese, Cheese]"]
  by simp

text \<open>Pineapple additions stay exact up to \<open>2 ^ 56\<close>: every sum is a multiple of 8.\<close>

lemma price_pineapples:
  "8 dvd price b \<Longrightarrow> 0 \<le> price b \<Longrightarrow> price b + 8 * int n \<le> 2 ^ 56
     \<Longrightarrow> price (add_all (replicate n Pineapple) b) = price b + 8 * int n"
proof (induction n arbitrary: b)
  case 0
  then show ?case by (simp add: add_all_Nil)
next
  case (Suc n)
  have "round_double (price b + 8) = price b + 8"
    using Suc.prems by (intro round_double_exact [of 3]) auto
  then have step: "price (addPineapple b) = price b + 8"
    by (simp add: addPineapple_def dadd_def)
  have "price (add_all (replicate n Pineapple) (addPineapple b)) = price (addPineapple b) + 8 * int n"
    using Suc.prems step by (intro Suc.IH) auto
  with step show ?case by (simp add: add_all_Cons)
qed

lemma name_add_ingredient: "name (add_ingredient x b) = name b"
  by (cases x) (simp_all add: addCheese_def addPepperoni_def addPineapple_def)

lemma name_add_all: "name (add_all xs b) = name b"
  by (induction xs arbitrary: b) (simp_all add: add_all_Nil add_all_Cons name_add_ingredient)

text \<open>The builder reaches \<open>2 ^ 55\<close> with \<open>2 ^ 52\<close> pineapple additions.\<close>

lemma build_pineapples:
  "build (add_all (replicate (2 ^ 52) Pineapple) new_PizzaBuilder) =
     CustomPizza ''Pizza Personalizada'' (2 ^ 55)"
proof -
  have fresh: "price new_PizzaBuilder = 0"
    by (simp add: new_PizzaBuilder_def)
  have "price (add_all (replicate (2 ^ 52) Pineapple) new_PizzaBuilder)
          = price new_PizzaBuilder + 8 * int (2 ^ 52)"
    by (rule price_pineapples) (simp_all add: fresh)
  then have "price (add_all (replicate (2 ^ 52) Pineapple) new_PizzaBuilder) = 2 ^ 55"
    by (simp add: fresh)
  then show ?thesis
    by (simp add: build_def name_add_all) (simp add: new_PizzaBuilder_def)
qed

text \<open>
  C3 as stated fails for a long enough sequence: \<open>2 ^ 52\<close> pineapple additions reach
  \<open>2 ^ 55\<close>, and the cheese added then brings 8.
\<close>

theorem builder_price_counterexample:
  "getPrice (build (add_all (replicate (2 ^ 52) Pineapple @ [Cheese]) new_PizzaBuilder))
     \<noteq> 10 * int (count_list (replicate (2 ^ 52) Pineapple @ [Cheese]) Cheese)
       + 12 * int (count_list (replicate (2 ^ 52) Pineapple @ [Cheese]) Pepperoni)
       + 8 * int (count_list (replicate (2 ^ 52) Pineapple @ [Cheese]) Pineapple)"
proof -
  have "price (add_all (replicate (2 ^ 52) Pineapple) new_PizzaBuilder) = 2 ^ 55"
    using build_pineapples by (simp add: build_def)
  then have "getPrice (build (add_all (replicate (2 ^ 52) Pineapple @ [Cheese]) new_PizzaBuilder))
               = 2 ^ 55 + 8"
    using dadd_2_55_10
    by (simp add: add_all_append add_all_Cons add_all_Nil build_def addCheese_def)
  then show ?thesis
    by (simp add: count_list_replicate)
qed

section \<open>Clearing and the sign of the total\<close>

text \<open>
  C4. For every order, \<open>clearOrder\<close> empties the item sequence, the total afterwards is
  0, and the observer sequence is as it was.
\<close>

theorem clearOrder_frame:
  "pizzas (clearOrder ord) = [] \<and> calculateTotal (clearOrder ord) = 0
     \<and> observers (clearOrder ord) = observers ord"
  by (simp add: clearOrder_def calculateTotal_def)

lemma price_add_all_nonneg: "0 \<le> price b \<Longrightarrow> 0 \<le> price (add_all xs b)"
proof (induction xs arbitrary: b)
  case Nil
  then show ?case by (simp add: add_all_Nil)
next
  case (Cons x xs)
  have "0 \<le> price (add_ingredient x b)"
    using Cons.prems
    by (cases x) (simp_all add: addCheese_def addPepperoni_def addPineapple_def dadd_nonneg)
  then show ?case by (simp add: add_all_Cons Cons.IH)
qed

lemma total_loop_nonneg:
  "0 \<le> t \<Longrightarrow> \<forall>p \<in> set ps. 0 \<le> getPrice p \<Longrightarrow> 0 \<le> total_loop t ps"
  by (induction ps arbitrary: t) (simp_all add: dadd_nonneg)

lemma checkout_order: "fst (checkout paymentMethod ord) = ord"
  by (simp add: checkout_def notifyObservers_def Let_def)

lemma perform_prices:
  "\<forall>p \<in> set (pizzas ord). 0 \<le> getPrice p
     \<Longrightarrow> \<forall>p \<in> set (pizzas (perform op ord)). 0 \<le> getPrice p"
proof (cases op)
  case (AddCustom xs)
  assume "\<forall>p \<in> set (pizzas ord). 0 \<le> getPrice p"
  moreover have "0 \<le> price (add_all xs new_PizzaBuilder)"
    by (intro price_add_all_nonneg) (simp add: new_PizzaBuilder_def)
  ultimately show ?thesis
    using AddCustom by (simp add: addPizza_def build_def)
qed (simp_all add: addPizza_def addObserver_def clearOrder_def checkout_order)

lemma fold_perform_prices:
  "\<forall>p \<in> set (pizzas ord). 0 \<le> getPrice p
     \<Longrightarrow> \<forall>p \<in> set (pizzas (fold perform ops ord)). 0 \<le> getPrice p"
proof (induction ops arbitrary: ord)
  case Nil
  then show ?case by simp
next
  case (Cons op ops)
  from Cons.prems have "\<forall>p \<in> set (pizzas (perform op ord)). 0 \<le> getPrice p"
    by (rule perform_prices)
  then show ?case
    using Cons.IH [of "perform op ord"] by simp
qed

text \<open>
  C8. After any sequence of the program's operations on a new order (registering
  observers, adding menu pizzas, adding pizzas built by the builder, clearing, checking
  out), the total is not negative.
\<close>

theorem total_nonneg: "0 \<le> calculateTotal (run ops)"
proof -
  have "\<forall>p \<in> set (pizzas (run ops)). 0 \<le> getPrice p"
    unfolding run_def by (rule fold_perform_prices) (simp add: new_Order_def)
  then show ?thesis
    by (simp add: calculateTotal_def total_loop_nonneg)
qed

section \<open>Checkout\<close>

lemma calls_of_append: "calls_of (xs @ ys) = calls_of xs @ calls_of ys"
  by (induction xs rule: calls_of.induct) simp_all

lemma calls_of_cout: "calls_of (cout xs) = []"
  by (induction xs) (simp_all add: cout_def)

lemma stdout_of_cout: "stdout_of (cout xs) = xs"
  by (induction xs) (simp_all add: cout_def)

lemma calls_of_update: "calls_of (update obs t) = [Update obs t]"
  by (cases obs) (simp_all add: calls_of_cout)

lemma calls_of_notify_loop: "calls_of (notify_loop obss t) = map (\<lambda>obs. Update obs t) obss"
  by (induction obss) (simp_all add: calls_of_append calls_of_update)

lemma notify_loop_concat: "notify_loop obss t = concat (map (\<lambda>obs. update obs t) obss)"
  by (induction obss) simp_all

lemma calls_of_pay:
  "calls_of (pay p a) =
     Pay p a # (case p of ExternalPaymentAdapter api \<Rightarrow> [DoTransaction api a] | _ \<Rightarrow> [])"
  by (cases p) (simp_all add: calls_of_cout)

text \<open>
  C1. For every order and payment method, the calls \<open>checkout\<close> makes are one
  \<open>update\<close> for each registered observer, in registration order, each with the total
  computed from the order, and after them the one \<open>pay\<close> with that same total (which,
  for the adapter, makes its forwarding call). The events of \<open>checkout\<close> are those of
  the updates in that order, the line with the total, and those of the payment.
  \<open>addObserver\<close> registers at the end.
\<close>

theorem checkout_notifies_then_pays:
  "calls_of (snd (checkout p ord)) =
     map (\<lambda>obs. Update obs (calculateTotal ord)) (observers ord)
     @ Pay p (calculateTotal ord)
     # (case p of ExternalPaymentAdapter api \<Rightarrow> [DoTransaction api (calculateTotal ord)] | _ \<Rightarrow> [])
   \<and> snd (checkout p ord) =
     concat (map (\<lambda>obs. update obs (calculateTotal ord)) (observers ord))
     @ cout [Str ''Total a pagar: Bs'', Dbl (calculateTotal ord), Str ''\<newline>'']
     @ pay p (calculateTotal ord)
   \<and> observers (addObserver obs' ord) = observers ord @ [obs']"
proof (intro conjI)
  show "calls_of (snd (checkout p ord)) =
     map (\<lambda>obs. Update obs (calculateTotal ord)) (observers ord)
     @ Pay p (calculateTotal ord)
     # (case p of ExternalPaymentAdapter api \<Rightarrow> [DoTransaction api (calculateTotal ord)] | _ \<Rightarrow> [])"
    by (simp add: checkout_def notifyObservers_def Let_def calls_of_append calls_of_cout
        calls_of_notify_loop calls_of_pay)
  show "snd (checkout p ord) =
     concat (map (\<lambda>obs. update obs (calculateTotal ord)) (observers ord))
     @ cout [Str ''Total a pagar: Bs'', Dbl (calculateTotal ord), Str ''\<newline>'']
     @ pay p (calculateTotal ord)"
    by (simp add: checkout_def notifyObservers_def Let_def notify_loop_concat)
  show "observers (addObserver obs' ord) = observers ord @ [obs']"
    by (simp add: addObserver_def)
qed

text \<open>
  C9. For every amount, \<open>pay\<close> of the adapter makes exactly one call of
  \<open>doTransaction\<close> on the wrapped service, with the same amount, and does nothing else:
  what it writes is what \<open>doTransaction\<close> writes.
\<close>

theorem adapter_forwards:
  "calls_of (pay (ExternalPaymentAdapter api) a) =
     [Pay (ExternalPaymentAdapter api) a, DoTransaction api a]
   \<and> stdout_of (pay (ExternalPaymentAdapter api) a) = stdout_of (doTransaction api a)
   \<and> pay (ExternalPaymentAdapter api) a =
       Call (Pay (ExternalPaymentAdapter api) a) # doTransaction api a"
  by (simp add: calls_of_cout)

text \<open>
  C10. For every order and payment method, \<open>checkout\<close> leaves the order as it was,
  items and observers; so a second checkout, with any payment method, does what it would
  have done on the order before the first, with the same total.
\<close>

theorem checkout_frame:
  "fst (checkout p ord) = ord
   \<and> pizzas (fst (checkout p ord)) = pizzas ord
   \<and> observers (fst (checkout p ord)) = observers ord
   \<and> calculateTotal (fst (checkout p ord)) = calculateTotal ord
   \<and> checkout q (fst (checkout p ord)) = checkout q ord"
  by (simp add: checkout_def notifyObservers_def Let_def)

section \<open>The menu loop\<close>

lemma menu_loop_continues:
  "menu_body option' s = Some (Inr (v, s')) \<Longrightarrow> v \<noteq> 4
     \<Longrightarrow> menu_loop option' s = menu_loop (Some v) s'"
  by (subst menu_loop.simps) simp

lemma menu_loop_leaves:
  "menu_body option' s = Some (Inr (4, s')) \<Longrightarrow> menu_loop option' s = Some (Inr s')"
  by (subst menu_loop.simps) simp

text \<open>The default branch: the body of the loop returns, having written the menu and the
  message and nothing else.\<close>

lemma menu_body_default:
  assumes "extract_int (cin s) option' = (Some v, stream)" and "v \<notin> {1, 2, 3, 4}"
  shows "menu_body option' s =
           Some (Inr (v, s\<lparr>cin := stream,
                           trace := trace s @ cout (menu_text @ [Str invalid_option])\<rparr>))"
  using assms by (simp add: menu_body_def menu_turn_def read_int_def print_def menu_switch_def cout_def)




text \<open>
  After a field that is no number, or a number beyond the range of \<^verbatim>\<open>int\<close>, the
  stream has failed and every later extraction leaves the variable alone: the loop
  writes the menu and the message for ever. A run that starts with such a field does not
  return.
\<close>

lemma menu_loop_failed_stream:
  assumes "menu_loop var s = Some r"
  shows "\<not> (failbit (cin s) \<and> var \<notin> {None, Some 1, Some 2, Some 3, Some 4})"
proof (rule menu_loop.raw_induct
    [where P = "\<lambda>var s r. \<not> (failbit (cin s) \<and> var \<notin> {None, Some 1, Some 2, Some 3, Some 4})",
      OF _ assms])
  fix loop :: "int option \<Rightarrow> state \<Rightarrow> (fault + state) option"
  fix var s r
  assume IH: "\<And>var s r. loop var s = Some r
                \<Longrightarrow> \<not> (failbit (cin s) \<and> var \<notin> {None, Some 1, Some 2, Some 3, Some 4})"
  assume body: "(case menu_body var s of
        None \<Rightarrow> None
      | Some (Inl f) \<Rightarrow> Some (Inl f)
      | Some (Inr (n, s2)) \<Rightarrow> if n \<noteq> 4 then loop (Some n) s2 else Some (Inr s2)) = Some r"
  show "\<not> (failbit (cin s) \<and> var \<notin> {None, Some 1, Some 2, Some 3, Some 4})"
  proof
    assume bad: "failbit (cin s) \<and> var \<notin> {None, Some 1, Some 2, Some 3, Some 4}"
    then obtain v where v: "var = Some v" "v \<notin> {1, 2, 3, 4}"
      by (cases var) auto
    let ?s' = "s\<lparr>cin := cin s, trace := trace s @ cout (menu_text @ [Str invalid_option])\<rparr>"
    have "menu_body (Some v) s = Some (Inr (v, ?s'))"
      using bad v by (intro menu_body_default) auto
    with v body have "loop (Some v) ?s' = Some r"
      by auto
    from IH [OF this] bad v show False
      by simp
  qed
qed

lemma main_malformed_diverges: "main (Malformed # rest) = None"
proof -
  let ?s = "initial_state (Malformed # rest)"
  let ?s' = "?s\<lparr>cin := \<lparr>pending = Malformed # rest, failbit = True\<rparr>,
                 trace := trace ?s @ cout (menu_text @ [Str invalid_option])\<rparr>"
  have "menu_body None ?s = Some (Inr (0, ?s'))"
    by (rule menu_body_default) (simp_all add: initial_state_def)
  then have "menu_loop None ?s = menu_loop (Some 0) ?s'"
    by (rule menu_loop_continues) simp
  moreover have "menu_loop (Some 0) ?s' = None"
    using menu_loop_failed_stream [of "Some 0" ?s'] by (cases "menu_loop (Some 0) ?s'") auto
  ultimately show ?thesis
    by (simp add: main_def)
qed

section \<open>Finishing the order\<close>

lemma list_loop_concat:
  "list_loop ps =
     concat (map (\<lambda>p. [Str ''- '', Str (getName p), Str '' (Bs'', Dbl (getPrice p), Str '')\<newline>'']) ps)"
  by (induction ps) simp_all

text \<open>
  C6, as amended. When the extraction at the top-level menu finds the number 4, the
  loop is left after writing the menu and \<^verbatim>\<open>Finalizando pedido...\<close>; the program
  then writes the header of the listing and, for each pizza of the order in sequence, a
  line with its name and price, and directly after that the payment menu. No count of
  the items is written.
\<close>

theorem finish_lists_order:
  assumes "\<not> failbit (cin s)" and "pending (cin s) = Number 4 # rest"
  shows "menu_loop option' s =
           Some (Inr (s\<lparr>cin := \<lparr>pending = rest, failbit = False\<rparr>,
                       trace := trace s @ cout (menu_text @ [Str ''Finalizando pedido...\<newline>''])\<rparr>))
         \<and> finish (s\<lparr>cin := \<lparr>pending = rest, failbit = False\<rparr>,
                     trace := trace s @ cout (menu_text @ [Str ''Finalizando pedido...\<newline>''])\<rparr>) =
           payment_phase
             (s\<lparr>cin := \<lparr>pending = rest, failbit = False\<rparr>,
                trace := trace s
                  @ cout (menu_text @ [Str ''Finalizando pedido...\<newline>'']
                     @ Str ''Pizzas en el pedido:\<newline>''
                     # concat (map (\<lambda>p. [Str ''- '', Str (getName p), Str '' (Bs'',
                                          Dbl (getPrice p), Str '')\<newline>''])
                          (pizzas (order s)))
                     @ payment_menu_text)\<rparr>)"
proof
  have "menu_body option' s =
          Some (Inr (4, s\<lparr>cin := \<lparr>pending = rest, failbit = False\<rparr>,
                       trace := trace s @ cout (menu_text @ [Str ''Finalizando pedido...\<newline>''])\<rparr>))"
    using assms
    by (simp add: menu_body_def menu_turn_def read_int_def print_def menu_switch_def
        INT_MIN_def INT_MAX_def cout_def)
  then show "menu_loop option' s =
           Some (Inr (s\<lparr>cin := \<lparr>pending = rest, failbit = False\<rparr>,
                       trace := trace s @ cout (menu_text @ [Str ''Finalizando pedido...\<newline>''])\<rparr>))"
    by (rule menu_loop_leaves)
  show "finish (s\<lparr>cin := \<lparr>pending = rest, failbit = False\<rparr>,
                     trace := trace s @ cout (menu_text @ [Str ''Finalizando pedido...\<newline>''])\<rparr>) =
           payment_phase
             (s\<lparr>cin := \<lparr>pending = rest, failbit = False\<rparr>,
                trace := trace s
                  @ cout (menu_text @ [Str ''Finalizando pedido...\<newline>'']
                     @ Str ''Pizzas en el pedido:\<newline>''
                     # concat (map (\<lambda>p. [Str ''- '', Str (getName p), Str '' (Bs'',
                                          Dbl (getPrice p), Str '')\<newline>''])
                          (pizzas (order s)))
                     @ payment_menu_text)\<rparr>)"
    by (simp add: finish_def print_def listOrder_def list_loop_concat cout_def)
qed

text \<open>Finishing the order of the specification's scenario: three item lines.\<close>

theorem finish_lists_order_witness:
  "menu_loop (Some 3)
     \<lparr>order = \<lparr>pizzas = [PepperoniPizza, HawaiianPizza, CustomPizza ''Pizza Personalizada'' 18],
                observers = [EmailNotifier, AuditLogger]\<rparr>,
      cin = \<lparr>pending = [Number 4, Number 1], failbit = False\<rparr>,
      trace = []\<rparr> =
     Some (Inr \<lparr>order = \<lparr>pizzas = [PepperoniPizza, HawaiianPizza,
                                     CustomPizza ''Pizza Personalizada'' 18],
                          observers = [EmailNotifier, AuditLogger]\<rparr>,
                cin = \<lparr>pending = [Number 1], failbit = False\<rparr>,
                trace = cout (menu_text @ [Str ''Finalizando pedido...\<newline>''])\<rparr>)
   \<and> finish \<lparr>order = \<lparr>pizzas = [PepperoniPizza, HawaiianPizza,
                                   CustomPizza ''Pizza Personalizada'' 18],
                        observers = [EmailNotifier, AuditLogger]\<rparr>,
              cin = \<lparr>pending = [Number 1], failbit = False\<rparr>,
              trace = cout (menu_text @ [Str ''Finalizando pedido...\<newline>''])\<rparr> =
     payment_phase
       \<lparr>order = \<lparr>pizzas = [PepperoniPizza, HawaiianPizza, CustomPizza ''Pizza Personalizada'' 18],
                  observers = [EmailNotifier, AuditLogger]\<rparr>,
        cin = \<lparr>pending = [Number 1], failbit = False\<rparr>,
        trace = cout (menu_text
                  @ [Str ''Finalizando pedido...\<newline>'',
                     Str ''Pizzas en el pedido:\<newline>'',
                     Str ''- '', Str ''Pizza Pepperoni'', Str '' (Bs'', Dbl 40, Str '')\<newline>'',
                     Str ''- '', Str ''Pizza Hawaiana'', Str '' (Bs'', Dbl 50, Str '')\<newline>'',
                     Str ''- '', Str ''Pizza Personalizada'', Str '' (Bs'', Dbl 18, Str '')\<newline>'']
                  @ payment_menu_text)\<rparr>"
  using finish_lists_order
    [of "\<lparr>order = \<lparr>pizzas = [PepperoniPizza, HawaiianPizza, CustomPizza ''Pizza Personalizada'' 18],
                     observers = [EmailNotifier, AuditLogger]\<rparr>,
          cin = \<lparr>pending = [Number 4, Number 1], failbit = False\<rparr>,
          trace = []\<rparr>" "[Number 1]" "Some 3"]
  by simp

text \<open>
  C6 as stated fails: the listing of an order of two pizzas shows their names and the
  prices 40 and 50, and nowhere the number 2.
\<close>

theorem finish_lists_order_counterexample:
  "listOrder \<lparr>pizzas = [PepperoniPizza, HawaiianPizza], observers = [EmailNotifier, AuditLogger]\<rparr> =
     [Str ''Pizzas en el pedido:\<newline>'',
      Str ''- '', Str ''Pizza Pepperoni'', Str '' (Bs'', Dbl 40, Str '')\<newline>'',
      Str ''- '', Str ''Pizza Hawaiana'', Str '' (Bs'', Dbl 50, Str '')\<newline>'']
   \<and> \<not> prints_count
         (listOrder \<lparr>pizzas = [PepperoniPizza, HawaiianPizza], observers = [EmailNotifier, AuditLogger]\<rparr>)
         (length [PepperoniPizza, HawaiianPizza])"
  by (simp add: listOrder_def prints_count_def decimal.simps)

text \<open>
  C7. Whenever the extraction at the payment menu finds a field other than the numbers
  1, 2 and 3, the program writes the invalid-method warning and checks out with
  \<open>CashPayment\<close>; the order is cleared afterwards.
\<close>

theorem invalid_payment_defaults_to_cash:
  assumes "\<not> failbit (cin s)" and "pending (cin s) = tok # rest"
    and "tok \<notin> {Number 1, Number 2, Number 3}"
  shows "case extract_int (cin s) None of
           (var, stream) \<Rightarrow>
             var \<notin> {None, Some 1, Some 2, Some 3}
             \<and> payment_phase s =
                 Inr (s\<lparr>order := clearOrder (order s), cin := stream,
                        trace := trace s @ cout [Str invalid_method]
                                   @ snd (checkout CashPayment (order s))\<rparr>)"
proof -
  have "\<exists>v stream. extract_int (cin s) None = (Some v, stream) \<and> v \<notin> {1, 2, 3}"
    using assms by (cases tok) (auto simp: INT_MIN_def INT_MAX_def)
  then obtain v stream
    where ex: "extract_int (cin s) None = (Some v, stream)" and v: "v \<notin> {1, 2, 3}"
    by blast
  have sel: "select_payment v (s\<lparr>cin := stream\<rparr>) =
               (CashPayment, s\<lparr>cin := stream, trace := trace s @ cout [Str invalid_method]\<rparr>)"
    using v by (simp add: select_payment_def print_def)
  have "payment_phase s =
               Inr (s\<lparr>order := clearOrder (order s), cin := stream,
                      trace := trace s @ cout [Str invalid_method]
                                 @ snd (checkout CashPayment (order s))\<rparr>)"
    using ex sel
    by (simp add: payment_phase_def read_int_def checkout_def notifyObservers_def Let_def)
  with ex v show ?thesis
    by simp
qed

text \<open>The input 7 at the payment menu, for an order of one Pepperoni.\<close>

theorem invalid_payment_defaults_to_cash_witness:
  "payment_phase
     \<lparr>order = \<lparr>pizzas = [PepperoniPizza], observers = [EmailNotifier, AuditLogger]\<rparr>,
      cin = \<lparr>pending = [Number 7], failbit = False\<rparr>,
      trace = []\<rparr> =
   Inr \<lparr>order = \<lparr>pizzas = [], observers = [EmailNotifier, AuditLogger]\<rparr>,
        cin = \<lparr>pending = [], failbit = False\<rparr>,
        trace = cout [Str invalid_method]
                @ update EmailNotifier 40 @ update AuditLogger 40
                @ cout [Str ''Total a pagar: Bs'', Dbl 40, Str ''\<newline>'']
                @ pay CashPayment 40\<rparr>"
  using invalid_payment_defaults_to_cash
    [of "\<lparr>order = \<lparr>pizzas = [PepperoniPizza], observers = [EmailNotifier, AuditLogger]\<rparr>,
          cin = \<lparr>pending = [Number 7], failbit = False\<rparr>, trace = []\<rparr>" "Number 7" "[]"]
  by (simp add: INT_MIN_def INT_MAX_def clearOrder_def checkout_def notifyObservers_def
      calculateTotal_def Let_def dadd_def round_double_def round_nat_def ulp.simps)

section \<open>Whole runs\<close>

text \<open>
  The scenario of the specification: Pepperoni, Hawaiian, a custom pizza of cheese and
  pineapple, then cash. The listing shows 40, 50 and 18, both observers are told 108 and
  108 is paid in cash. With no input at a prompt whose variable was never stored to, the
  run faults.
\<close>

lemma main_scenario:
  "main [Number 1, Number 2, Number 3, Number 1, Number 3, Number 0, Number 4, Number 1] =
     Some (Inr \<lparr>order = \<lparr>pizzas = [], observers = [EmailNotifier, AuditLogger]\<rparr>,
                cin = \<lparr>pending = [], failbit = False\<rparr>,
                trace =
                  cout (menu_text @ menu_text @ menu_text @ ingredient_menu_text
                        @ [Str ''Ingrediente: '', Str ''Ingrediente: '', Str ''Ingrediente: '']
                        @ menu_text
                        @ [Str ''Finalizando pedido...\<newline>'',
                           Str ''Pizzas en el pedido:\<newline>'',
                           Str ''- '', Str ''Pizza Pepperoni'', Str '' (Bs'', Dbl 40, Str '')\<newline>'',
                           Str ''- '', Str ''Pizza Hawaiana'', Str '' (Bs'', Dbl 50, Str '')\<newline>'',
                           Str ''- '', Str ''Pizza Personalizada'', Str '' (Bs'', Dbl 18, Str '')\<newline>'']
                        @ payment_menu_text)
                  @ update EmailNotifier 108 @ update AuditLogger 108
                  @ cout [Str ''Total a pagar: Bs'', Dbl 108, Str ''\<newline>'']
                  @ pay CashPayment 108\<rparr>)"
  by (simp add: main_def initial_state_def menu_loop.simps menu_body_def menu_turn_def
      ingredient_loop.simps read_int_def
      print_def menu_switch_def ingredient_switch_def INT_MIN_def INT_MAX_def finish_def
      payment_phase_def select_payment_def checkout_def notifyObservers_def calculateTotal_def
      clearOrder_def addPizza_def addObserver_def new_Order_def new_PizzaBuilder_def build_def
      addCheese_def addPineapple_def listOrder_def Let_def dadd_def round_double_def round_nat_def
      ulp.simps cout_def)

lemma main_eof: "main [] = Some (Inl IndeterminateValue)"
  by (simp add: main_def initial_state_def menu_loop.simps menu_body_def menu_turn_def
      read_int_def print_def)

lemma main_eof_payment: "main [Number 4] = Some (Inl IndeterminateValue)"
  by (simp add: main_def initial_state_def menu_loop.simps menu_body_def menu_turn_def
      read_int_def print_def menu_switch_def INT_MIN_def INT_MAX_def finish_def payment_phase_def)

end
